theory Spec2Isabelle
  imports Complex_Main
begin

section \<open>The page and the state of the script\<close>

text \<open>
  \<^verbatim>\<open>script.js\<close> keeps two global variables, \<^verbatim>\<open>currentTab\<close> and \<^verbatim>\<open>isLoading\<close>, and
  otherwise works on the page: the tab buttons, the tab panels, the menu items and the
  status bar. The page is modelled as the list of its elements in document order. An
  element carries what the script reads or writes: its id, its class list (the token set
  behind \<^verbatim>\<open>classList\<close>), the attributes \<^verbatim>\<open>data-tab\<close> and \<^verbatim>\<open>data-item\<close> (\<open>None\<close> is
  JavaScript's \<^verbatim>\<open>null\<close>, what \<^verbatim>\<open>getAttribute\<close> returns for a missing attribute), the
  \<^verbatim>\<open>disabled\<close> property, the two inline style properties and the text content. The status
  bar is taken to have no element children, so that writing its text content leaves the
  list of elements as it is.

  A call of \<^verbatim>\<open>setTimeout\<close> adds a pending timer: the item name its callback has captured
  and the delay it was scheduled with. Numbers are real numbers: the values of
  \<^verbatim>\<open>Math.random()\<close> are IEEE doubles in the source, and rounding is not modelled.
  Non-ASCII characters of a string literal are written as their UTF-8 bytes.
\<close>

record element =
  elemId :: "string option"
  classList :: "string list"
  dataTab :: "string option"
  dataItem :: "string option"
  disabled :: bool
  styleOpacity :: string
  styleCursor :: string
  textContent :: string

record timer =
  timerItem :: "string option"
  timerDelay :: real

record state =
  currentTab :: "string option"
  isLoading :: bool
  timers :: "timer list"
  document :: "element list"

text \<open>
  The DOM calls of the script can throw: \<^verbatim>\<open>classList.add\<close> refuses an empty token and a
  token with white space, \<^verbatim>\<open>querySelector\<close> refuses a selector it cannot parse. A function
  of the script either returns, or throws with the state as its assignments so far have
  left it.
\<close>

datatype dom_exception = SyntaxError | InvalidCharacterError

datatype 'a outcome = Return 'a | Throws dom_exception 'a

fun and_then :: "'a outcome \<Rightarrow> ('a \<Rightarrow> 'a outcome) \<Rightarrow> 'a outcome" where
  "and_then (Return s) f = f s"
| "and_then (Throws x s) f = Throws x s"

fun state_after :: "'a outcome \<Rightarrow> 'a" where
  "state_after (Return s) = s"
| "state_after (Throws x s) = s"

fun returns :: "'a outcome \<Rightarrow> bool" where
  "returns (Return s) = True"
| "returns (Throws x s) = False"

text \<open>The string a template literal \<^verbatim>\<open>${v}\<close> produces for a string or \<^verbatim>\<open>null\<close>.\<close>

fun toString :: "string option \<Rightarrow> string" where
  "toString None = ''null''"
| "toString (Some v) = v"

subsection \<open>DOM operations\<close>

fun find_index :: "('a \<Rightarrow> bool) \<Rightarrow> 'a list \<Rightarrow> nat option" where
  "find_index P [] = None"
| "find_index P (x # xs) = (if P x then Some 0 else map_option Suc (find_index P xs))"

text \<open>\<^verbatim>\<open>document.getElementById(i)\<close>: the first element with that id, \<^verbatim>\<open>null\<close> for the
  empty string.\<close>

definition getElementById :: "string \<Rightarrow> element list \<Rightarrow> nat option" where
  "getElementById i d = (if i = [] then None else find_index (\<lambda>e. elemId e = Some i) d)"

text \<open>\<^verbatim>\<open>document.querySelectorAll('.c').forEach(f)\<close>, for a callback that changes only the
  element it is given.\<close>

definition forEach_class :: "string \<Rightarrow> (element \<Rightarrow> element) \<Rightarrow> element list \<Rightarrow> element list" where
  "forEach_class c f d = map (\<lambda>e. if c \<in> set (classList e) then f e else e) d"

definition modify :: "nat \<Rightarrow> ('a \<Rightarrow> 'a) \<Rightarrow> 'a list \<Rightarrow> 'a list" where
  "modify k f xs = (if k < length xs then xs[k := f (xs ! k)] else xs)"

text \<open>\<^verbatim>\<open>e.classList.remove(t1, ..., tn)\<close> for valid tokens.\<close>

definition classList_remove :: "string list \<Rightarrow> element \<Rightarrow> element" where
  "classList_remove tokens e = e\<lparr>classList := filter (\<lambda>c. c \<notin> set tokens) (classList e)\<rparr>"

definition ascii_whitespace :: "char \<Rightarrow> bool" where
  "ascii_whitespace c = (c \<in> set [CHR 0x09, CHR 0x0A, CHR 0x0C, CHR 0x0D, CHR 0x20])"

text \<open>\<^verbatim>\<open>e.classList.add(token)\<close>, for the element at position \<open>k\<close>: the token is
  validated, then appended unless the element has it.\<close>

definition classList_add :: "string \<Rightarrow> nat \<Rightarrow> state \<Rightarrow> state outcome" where
  "classList_add token k s =
     (if token = [] then Throws SyntaxError s
      else if list_ex ascii_whitespace token then Throws InvalidCharacterError s
      else Return (s\<lparr>document :=
             modify k (\<lambda>e. if token \<in> set (classList e) then e
                            else e\<lparr>classList := classList e @ [token]\<rparr>) (document s)\<rparr>))"

text \<open>
  \<^verbatim>\<open>document.querySelector\<close> is called by \<^verbatim>\<open>switchToTab\<close> with a selector built from the
  clicked button's attribute. The browser's selector engine is a parameter of the model:
  given the selector text and the page it throws, or returns no match, or the position of
  the first matching element.
\<close>

type_synonym selector_engine = "string \<Rightarrow> element list \<Rightarrow> dom_exception + nat option"

section \<open>The functions of the script\<close>

subsection \<open>updateStatusMessage\<close>

definition updateStatusMessage :: "string \<Rightarrow> string \<Rightarrow> state \<Rightarrow> state outcome" where
  "updateStatusMessage message type s =
     (case getElementById ''statusMessage'' (document s) of
        None \<Rightarrow> Return s
      | Some statusElement \<Rightarrow>
          let s1 = s\<lparr>document := modify statusElement (\<lambda>e. e\<lparr>textContent := message\<rparr>) (document s)\<rparr>;
              s2 = s1\<lparr>document :=
                     modify statusElement (classList_remove [''loading'', ''success'', ''error''])
                       (document s1)\<rparr>
          in if type \<noteq> [] then classList_add type statusElement s2 else Return s2)"

subsection \<open>disableMenuItems\<close>

definition disableMenuItems :: "bool \<Rightarrow> state \<Rightarrow> state" where
  "disableMenuItems dis s =
     s\<lparr>document :=
         forEach_class ''menu-item''
           (\<lambda>item. if dis
                    then item\<lparr>disabled := dis, styleOpacity := ''0.6'', styleCursor := ''not-allowed''\<rparr>
                    else item\<lparr>disabled := dis, styleOpacity := ''1'', styleCursor := ''pointer''\<rparr>)
           (document s)\<rparr>"

subsection \<open>The tab system\<close>

text \<open>
  \<^verbatim>\<open>getTabDisplayName\<close> looks the id up in the object literal \<^verbatim>\<open>tabNames\<close> and falls back
  to the id itself. The three own properties of the literal are modelled; ids that name a
  member of \<^verbatim>\<open>Object.prototype\<close> are outside the model.
\<close>

definition tabNames :: "(string \<times> string) list" where
  "tabNames = [(''tab1'', ''Main Dishes''), (''tab2'', ''Beverages''), (''tab3'', ''Desserts'')]"

definition getTabDisplayName :: "string option \<Rightarrow> string option" where
  "getTabDisplayName tabId =
     (case map_of tabNames (toString tabId) of Some n \<Rightarrow> Some n | None \<Rightarrow> tabId)"

definition switchToTab :: "selector_engine \<Rightarrow> string option \<Rightarrow> state \<Rightarrow> state outcome" where
  "switchToTab querySelector tabId s =
     (let s1 = s\<lparr>currentTab := tabId\<rparr>;
          s2 = s1\<lparr>document := forEach_class ''tab-button'' (classList_remove [''active'']) (document s1)\<rparr>
      in case querySelector (''[data-tab=\"'' @ toString tabId @ ''\"]'') (document s2) of
           Inl x \<Rightarrow> Throws x s2
         | Inr activeTabButton \<Rightarrow>
             and_then
               (case activeTabButton of
                  None \<Rightarrow> Return s2
                | Some b \<Rightarrow> classList_add ''active'' b s2)
               (\<lambda>s3.
                  let s4 = s3\<lparr>document :=
                             forEach_class ''tab-content'' (classList_remove [''active'']) (document s3)\<rparr>
                  in and_then
                       (case getElementById (toString tabId) (document s4) of
                          None \<Rightarrow> Return s4
                        | Some activeTabContent \<Rightarrow> classList_add ''active'' activeTabContent s4)
                       (\<lambda>s5. updateStatusMessage
                                (''Switched to '' @ toString (getTabDisplayName tabId)) ''success'' s5)))"

text \<open>The click listener that \<^verbatim>\<open>initializeTabSystem\<close> attaches; \<open>this\<close> is the position
  of the clicked button.\<close>

definition tabButtonClick :: "selector_engine \<Rightarrow> nat \<Rightarrow> state \<Rightarrow> state outcome" where
  "tabButtonClick querySelector this s =
     (if isLoading s
      then updateStatusMessage ''Please wait for current operation to complete'' ''error'' s
      else switchToTab querySelector (dataTab (document s ! this)) s)"

subsection \<open>The simulated REST call\<close>

text \<open>
  \<^verbatim>\<open>handleApiSuccess\<close> and \<^verbatim>\<open>handleApiError\<close> read the clock;
  \<open>currentTime\<close> is the string \<^verbatim>\<open>new Date().toLocaleTimeString()\<close> gave. The check mark
  U+2713 and the ballot cross U+2717 are three bytes each.
\<close>

definition handleApiSuccess :: "string option \<Rightarrow> string \<Rightarrow> state \<Rightarrow> state outcome" where
  "handleApiSuccess itemName currentTime s =
     updateStatusMessage
       ([CHR 0xE2, CHR 0x9C, CHR 0x93] @ '' API call successful for \"'' @ toString itemName
          @ ''\" at '' @ currentTime)
       ''success'' s"

definition handleApiError :: "string option \<Rightarrow> string \<Rightarrow> state \<Rightarrow> state outcome" where
  "handleApiError itemName currentTime s =
     updateStatusMessage
       ([CHR 0xE2, CHR 0x9C, CHR 0x97] @ '' API call failed for \"'' @ toString itemName
          @ ''\" at '' @ currentTime)
       ''error'' s"

text \<open>
  \<^verbatim>\<open>simulateRestApiCall\<close>, up to and including \<^verbatim>\<open>setTimeout\<close>; \<open>random\<close> is the value
  \<^verbatim>\<open>Math.random()\<close> returned for the delay.
\<close>

definition simulateRestApiCall :: "string option \<Rightarrow> real \<Rightarrow> state \<Rightarrow> state outcome" where
  "simulateRestApiCall itemName random s =
     and_then
       (updateStatusMessage (''Simulating REST API call for \"'' @ toString itemName @ ''\"...'')
          ''loading'' (s\<lparr>isLoading := True\<rparr>))
       (\<lambda>s1. let s2 = disableMenuItems True s1;
                  delay = random * 2000 + 1000
              in Return (s2\<lparr>timers := timers s2 @ [\<lparr>timerItem = itemName, timerDelay = delay\<rparr>]\<rparr>))"

text \<open>
  The arrow function passed to \<^verbatim>\<open>setTimeout\<close>; \<open>random\<close> is the value \<^verbatim>\<open>Math.random()\<close>
  returned inside it.
\<close>

definition timerCallback :: "string option \<Rightarrow> real \<Rightarrow> string \<Rightarrow> state \<Rightarrow> state outcome" where
  "timerCallback itemName random currentTime s =
     (let success = (random > 0.1)
      in and_then
           (if success then handleApiSuccess itemName currentTime s
            else handleApiError itemName currentTime s)
           (\<lambda>s1. Return (disableMenuItems False (s1\<lparr>isLoading := False\<rparr>))))"

text \<open>The click listener that \<^verbatim>\<open>initializeMenuItems\<close> attaches; \<open>this\<close> is the position
  of the clicked item.\<close>

definition menuItemClick :: "nat \<Rightarrow> real \<Rightarrow> state \<Rightarrow> state outcome" where
  "menuItemClick this random s =
     (if isLoading s
      then updateStatusMessage ''API call already in progress - Please wait'' ''error'' s
      else simulateRestApiCall (dataItem (document s ! this)) random s)"

section \<open>The event loop\<close>

text \<open>
  The browser runs one listener or timer callback at a time, each to its end. An event is
  a click on the element at a position, handled by the menu listener or by the tab
  listener, or the firing of the pending timer at a position of the timer list; an event
  brings the values that \<^verbatim>\<open>Math.random()\<close> and the clock give while it is handled. The
  listeners are run on any element of the page, which covers every element they are
  attached to. A timer leaves the list when it fires. An exception ends the handler and
  leaves the state as it is then.
\<close>

datatype event =
  MenuItemClick nat real
| TabButtonClick nat
| TimerFire nat real string

definition fire :: "nat \<Rightarrow> real \<Rightarrow> string \<Rightarrow> state \<Rightarrow> state outcome" where
  "fire k random currentTime s =
     timerCallback (timerItem (timers s ! k)) random currentTime
       (s\<lparr>timers := take k (timers s) @ drop (Suc k) (timers s)\<rparr>)"

fun step :: "selector_engine \<Rightarrow> event \<Rightarrow> state \<Rightarrow> state" where
  "step qs (MenuItemClick i r) s =
     (if i < length (document s) then state_after (menuItemClick i r s) else s)"
| "step qs (TabButtonClick i) s =
     (if i < length (document s) then state_after (tabButtonClick qs i s) else s)"
| "step qs (TimerFire k r t) s =
     (if k < length (timers s) then state_after (fire k r t s) else s)"

fun run :: "selector_engine \<Rightarrow> event list \<Rightarrow> state \<Rightarrow> state" where
  "run qs [] s = s"
| "run qs (e # es) s = run qs es (step qs e s)"

text \<open>
  The state when the \<^verbatim>\<open>DOMContentLoaded\<close> listener has run on the page \<open>d\<close>: the two
  globals have their initial values, no timer is pending, and the status bar shows the
  ready message (\<^verbatim>\<open>type\<close> defaults to the empty string).
\<close>

definition initial :: "element list \<Rightarrow> state" where
  "initial d =
     state_after
       (updateStatusMessage ''Application initialized - Ready to use'' []
          \<lparr>currentTab = Some ''tab1'', isLoading = False, timers = [], document = d\<rparr>)"

section \<open>Notions used in the statements\<close>

text \<open>The three styling classes of the status bar that \<^verbatim>\<open>updateStatusMessage\<close> removes.\<close>

definition status_classes :: "string list" where
  "status_classes = [''loading'', ''success'', ''error'']"

text \<open>
  What a completed call of \<^verbatim>\<open>updateStatusMessage\<close> has made of the status element: the
  new text, the three styling classes gone, the class \<open>type\<close> appended unless it is empty
  or the element has it.
\<close>

definition shown :: "string \<Rightarrow> string \<Rightarrow> element \<Rightarrow> element" where
  "shown message type e =
     (let base = filter (\<lambda>c. c \<notin> set [''loading'', ''success'', ''error'']) (classList e)
      in e\<lparr>textContent := message,
            classList := (if type = [] \<or> type \<in> set base then base else base @ [type])\<rparr>)"

text \<open>
  The controller is busy exactly when \<^verbatim>\<open>isLoading\<close> is set. The single-flight condition:
  a busy state has exactly one pending timer, an idle state has none.
\<close>

definition single_flight :: "state \<Rightarrow> bool" where
  "single_flight s = (if isLoading s then length (timers s) = 1 else timers s = [])"

subsection \<open>A page and a selector engine to evaluate on\<close>

text \<open>
  A small page: the status bar, two tab buttons, two tab panels and two menu items. The
  engine answers the attribute selectors \<^verbatim>\<open>[data-tab="v"]\<close> by comparing the selector's text.
\<close>

definition node :: "string option \<Rightarrow> string list \<Rightarrow> string option \<Rightarrow> string option \<Rightarrow> element" where
  "node i cs tab item =
     \<lparr>elemId = i, classList = cs, dataTab = tab, dataItem = item, disabled = False,
      styleOpacity = [], styleCursor = [], textContent = []\<rparr>"

definition page0 :: "element list" where
  "page0 =
     [node (Some ''statusMessage'') [''status-message''] None None,
      node None [''tab-button'', ''active''] (Some ''tab1'') None,
      node None [''tab-button''] (Some ''tab2'') None,
      node (Some ''tab1'') [''tab-content'', ''active''] None None,
      node (Some ''tab2'') [''tab-content''] None None,
      node None [''menu-item''] None (Some ''Pizza''),
      node None [''menu-item''] None (Some ''Soda'')]"

definition engine0 :: selector_engine where
  "engine0 sel d =
     Inr (find_index (\<lambda>e. case dataTab e of None \<Rightarrow> False
                           | Some v \<Rightarrow> sel = ''[data-tab=\"'' @ v @ ''\"]'') d)"

text \<open>The clicks are the events that are not the firing of a timer.\<close>

fun is_click :: "event \<Rightarrow> bool" where
  "is_click (MenuItemClick i r) = True"
| "is_click (TabButtonClick i) = True"
| "is_click (TimerFire k r t) = False"

text \<open>
  Two states to evaluate on: a busy one whose status bar carries the class \<^verbatim>\<open>loading\<close>,
  and an idle one on a page without a status bar.
\<close>

definition loading0 :: state where
  "loading0 = \<lparr>currentTab = Some ''tab1'', isLoading = True, timers = [\<lparr>timerItem = Some ''Pizza'', timerDelay = 2000\<rparr>],
     document = [node (Some ''statusMessage'') [''status-message'', ''loading''] None None,
                 node None [''menu-item''] None (Some ''Pizza'')]\<rparr>"

definition bare0 :: state where
  "bare0 = \<lparr>currentTab = Some ''tab1'', isLoading = False, timers = [],
     document = [node None [''menu-item''] None (Some ''Pizza'')]\<rparr>"

subsection \<open>The texts of the status bar\<close>

text \<open>
  The four messages of the simulated call, as the source builds them: the advisory of a
  rejected click, the loading message of an accepted one, and the two outcome messages.
\<close>

definition busy_text :: string where
  "busy_text = ''API call already in progress - Please wait''"

definition loading_text :: "string option \<Rightarrow> string" where
  "loading_text itemName = ''Simulating REST API call for \"'' @ toString itemName @ ''\"...''"

definition success_text :: "string option \<Rightarrow> string \<Rightarrow> string" where
  "success_text itemName currentTime =
     [CHR 0xE2, CHR 0x9C, CHR 0x93] @ '' API call successful for \"'' @ toString itemName
       @ ''\" at '' @ currentTime"

definition failure_text :: "string option \<Rightarrow> string \<Rightarrow> string" where
  "failure_text itemName currentTime =
     [CHR 0xE2, CHR 0x9C, CHR 0x97] @ '' API call failed for \"'' @ toString itemName
       @ ''\" at '' @ currentTime"

text \<open>A page whose menu items have an empty \<^verbatim>\<open>data-item\<close> attribute and none at all.\<close>

definition page1 :: "element list" where
  "page1 =
     [node (Some ''statusMessage'') [''status-message''] None None,
      node None [''menu-item''] None (Some []),
      node None [''menu-item''] None None]"

section \<open>Auxiliary facts\<close>

lemma find_index_Some: "find_index P xs = Some k \<Longrightarrow> k < length xs \<and> P (xs ! k)"
proof (induction xs arbitrary: k)
  case Nil
  then show ?case by simp
next
  case (Cons x xs)
  then show ?case by (cases "P x") (auto simp: nth_Cons')
qed

lemma find_index_map: "find_index P (map f xs) = find_index (\<lambda>x. P (f x)) xs"
  by (induction xs) simp_all

lemma getElementById_bound: "getElementById i d = Some k \<Longrightarrow> k < length d"
  by (auto simp: getElementById_def dest: find_index_Some split: if_splits)

lemma getElementById_ids:
  assumes "map elemId d' = map elemId d"
  shows "getElementById i d' = getElementById i d"
proof -
  have "find_index (\<lambda>v. v = Some i) (map elemId d') = find_index (\<lambda>v. v = Some i) (map elemId d)"
    using assms by simp
  then show ?thesis
    by (simp add: getElementById_def find_index_map)
qed

lemma modify_length [simp]: "length (modify k f xs) = length xs"
  by (simp add: modify_def)

lemma forEach_class_length [simp]: "length (forEach_class c f d) = length d"
  by (simp add: forEach_class_def)

lemma forEach_class_map:
  assumes "\<And>x. g (f x) = g x"
  shows "map g (forEach_class c f d) = map g d"
  by (simp add: forEach_class_def assms)

lemma usm_None:
  "getElementById ''statusMessage'' (document s) = None \<Longrightarrow> updateStatusMessage m ty s = Return s"
  by (simp add: updateStatusMessage_def)

lemma usm_Some:
  assumes "getElementById ''statusMessage'' (document s) = Some k"
    and "\<not> list_ex ascii_whitespace ty"
  shows "updateStatusMessage m ty s =
           Return (s\<lparr>document := (document s)[k := shown m ty (document s ! k)]\<rparr>)"
proof -
  have k: "k < length (document s)"
    using assms(1) by (rule getElementById_bound)
  show ?thesis
    using assms k
    by (simp add: updateStatusMessage_def classList_add_def modify_def shown_def
        classList_remove_def Let_def)
qed

lemma usm_Throws:
  assumes "getElementById ''statusMessage'' (document s) = Some k"
    and "list_ex ascii_whitespace ty"
  shows "updateStatusMessage m ty s =
           Throws InvalidCharacterError (s\<lparr>document := (document s)[k := shown m [] (document s ! k)]\<rparr>)"
proof -
  have k: "k < length (document s)"
    using assms(1) by (rule getElementById_bound)
  have "ty \<noteq> []"
    using assms(2) by auto
  then show ?thesis
    using assms k
    by (simp add: updateStatusMessage_def classList_add_def modify_def shown_def
        classList_remove_def Let_def)
qed

lemma usm_cases:
  obtains (absent) "getElementById ''statusMessage'' (document s) = None"
      "updateStatusMessage m ty s = Return s"
  | (shown) k where "getElementById ''statusMessage'' (document s) = Some k" "k < length (document s)"
      "\<not> list_ex ascii_whitespace ty"
      "updateStatusMessage m ty s = Return (s\<lparr>document := (document s)[k := shown m ty (document s ! k)]\<rparr>)"
  | (thrown) k where "getElementById ''statusMessage'' (document s) = Some k" "k < length (document s)"
      "list_ex ascii_whitespace ty"
      "updateStatusMessage m ty s = Throws InvalidCharacterError (s\<lparr>document := (document s)[k := shown m [] (document s ! k)]\<rparr>)"
proof (cases "getElementById ''statusMessage'' (document s)")
  case None
  then show ?thesis using absent usm_None by blast
next
  case (Some k)
  then have "k < length (document s)" by (rule getElementById_bound)
  then show ?thesis
    using Some shown thrown usm_Some usm_Throws by (cases "list_ex ascii_whitespace ty") blast+
qed

lemma usm_frame:
  "isLoading (state_after (updateStatusMessage m ty s)) = isLoading s"
  "timers (state_after (updateStatusMessage m ty s)) = timers s"
  "currentTab (state_after (updateStatusMessage m ty s)) = currentTab s"
  "length (document (state_after (updateStatusMessage m ty s))) = length (document s)"
  by (rule usm_cases[where s=s and m=m and ty=ty]; simp)+

lemma shown_elemId [simp]: "elemId (shown m ty e) = elemId e"
  by (simp add: shown_def Let_def)

lemma usm_ids:
  "map elemId (document (state_after (updateStatusMessage m ty s))) = map elemId (document s)"
  by (rule usm_cases[where s=s and m=m and ty=ty]) (simp_all add: map_update list_update_same_conv)

lemma usm_returns: "\<not> list_ex ascii_whitespace ty \<Longrightarrow> returns (updateStatusMessage m ty s)"
  by (rule usm_cases[where s=s and m=m and ty=ty]) simp_all

lemma disableMenuItems_frame [simp]:
  "isLoading (disableMenuItems b s) = isLoading s"
  "timers (disableMenuItems b s) = timers s"
  "currentTab (disableMenuItems b s) = currentTab s"
  "length (document (disableMenuItems b s)) = length (document s)"
  by (simp_all add: disableMenuItems_def)

lemma disableMenuItems_ids [simp]:
  "map elemId (document (disableMenuItems b s)) = map elemId (document s)"
  by (simp add: disableMenuItems_def forEach_class_map)

lemma loading_token [simp]:
  "\<not> list_ex ascii_whitespace ''loading''"
  "\<not> list_ex ascii_whitespace ''success''"
  "\<not> list_ex ascii_whitespace ''error''"
  "\<not> list_ex ascii_whitespace ''active''"
  by (simp_all add: ascii_whitespace_def)

lemma usm_returns_literal [simp]:
  "returns (updateStatusMessage m ''loading'' s)"
  "returns (updateStatusMessage m ''success'' s)"
  "returns (updateStatusMessage m ''error'' s)"
  "returns (updateStatusMessage m [] s)"
  by (rule usm_returns, simp add: ascii_whitespace_def)+

lemma returnsE:
  assumes "returns x"
  obtains s where "x = Return s"
  using assms by (cases x) simp_all

lemma simulateRestApiCall_ctl:
  "returns (simulateRestApiCall n r s)"
  "isLoading (state_after (simulateRestApiCall n r s))"
  "timers (state_after (simulateRestApiCall n r s)) =
     timers s @ [\<lparr>timerItem = n, timerDelay = r * 2000 + 1000\<rparr>]"
  "currentTab (state_after (simulateRestApiCall n r s)) = currentTab s"
  "length (document (state_after (simulateRestApiCall n r s))) = length (document s)"
proof -
  let ?m = "''Simulating REST API call for \"'' @ toString n @ ''\"...''"
  obtain s1 where s1: "updateStatusMessage ?m ''loading'' (s\<lparr>isLoading := True\<rparr>) = Return s1"
    by (rule returnsE [OF usm_returns_literal(1)])
  have fr: "isLoading s1" "timers s1 = timers s" "currentTab s1 = currentTab s"
    "length (document s1) = length (document s)"
    using usm_frame [of ?m "''loading''" "s\<lparr>isLoading := True\<rparr>", unfolded s1] by simp_all
  have eq: "simulateRestApiCall n r s =
      Return ((disableMenuItems True s1)\<lparr>timers := timers (disableMenuItems True s1)
         @ [\<lparr>timerItem = n, timerDelay = r * 2000 + 1000\<rparr>]\<rparr>)"
    unfolding simulateRestApiCall_def s1 Let_def by simp
  show "returns (simulateRestApiCall n r s)"
    "isLoading (state_after (simulateRestApiCall n r s))"
    "timers (state_after (simulateRestApiCall n r s)) =
       timers s @ [\<lparr>timerItem = n, timerDelay = r * 2000 + 1000\<rparr>]"
    "currentTab (state_after (simulateRestApiCall n r s)) = currentTab s"
    "length (document (state_after (simulateRestApiCall n r s))) = length (document s)"
    by (simp_all add: eq fr)
qed

lemma timerCallback_ctl:
  "returns (timerCallback n r t s)"
  "\<not> isLoading (state_after (timerCallback n r t s))"
  "timers (state_after (timerCallback n r t s)) = timers s"
  "currentTab (state_after (timerCallback n r t s)) = currentTab s"
  "length (document (state_after (timerCallback n r t s))) = length (document s)"
proof -
  define o1 where "o1 = (if r > 0.1 then handleApiSuccess n t s else handleApiError n t s)"
  have "returns o1"
    by (simp add: o1_def handleApiSuccess_def handleApiError_def)
  then obtain s1 where s1: "o1 = Return s1"
    by (rule returnsE)
  have "state_after o1 = s1"
    by (simp add: s1)
  then have fr: "timers s1 = timers s" "currentTab s1 = currentTab s"
    "length (document s1) = length (document s)"
    by (auto simp: o1_def handleApiSuccess_def handleApiError_def usm_frame split: if_splits)
  have eq: "timerCallback n r t s = Return (disableMenuItems False (s1\<lparr>isLoading := False\<rparr>))"
    using s1 by (simp add: timerCallback_def o1_def Let_def)
  show "returns (timerCallback n r t s)"
    "\<not> isLoading (state_after (timerCallback n r t s))"
    "timers (state_after (timerCallback n r t s)) = timers s"
    "currentTab (state_after (timerCallback n r t s)) = currentTab s"
    "length (document (state_after (timerCallback n r t s))) = length (document s)"
    by (simp_all add: eq fr)
qed

lemma and_then_frame:
  assumes "g (state_after x) = v" and "\<And>s. g s = v \<Longrightarrow> g (state_after (f s)) = v"
  shows "g (state_after (and_then x f)) = v"
  using assms by (cases x) simp_all

lemma switchToTab_frame:
  fixes g :: "state \<Rightarrow> 'b"
  assumes g: "\<And>f s. g (s\<lparr>document := f\<rparr>) = g s" "\<And>c s. g (s\<lparr>currentTab := c\<rparr>) = g s"
  shows "g (state_after (switchToTab qs tabId s)) = g s"
proof -
  have add: "g (state_after (classList_add tok k s')) = g s'" for tok k s'
    by (simp add: classList_add_def g)
  have usm: "g (state_after (updateStatusMessage m ty s')) = g s'" for m ty s'
    by (rule usm_cases [where s=s' and m=m and ty=ty]) (simp_all add: g)
  define s2 where "s2 = (s\<lparr>currentTab := tabId\<rparr>)\<lparr>document :=
    forEach_class ''tab-button'' (classList_remove [''active'']) (document (s\<lparr>currentTab := tabId\<rparr>))\<rparr>"
  define sel where "sel = ''[data-tab=\"'' @ toString tabId @ ''\"]''"
  define msg where "msg = ''Switched to '' @ toString (getTabDisplayName tabId)"
  define panel where "panel = (\<lambda>s3::state. s3\<lparr>document :=
    forEach_class ''tab-content'' (classList_remove [''active'']) (document s3)\<rparr>)"
  define rest where "rest = (\<lambda>s3.
    and_then
      (case getElementById (toString tabId) (document (panel s3)) of
         None \<Rightarrow> Return (panel s3)
       | Some activeTabContent \<Rightarrow> classList_add ''active'' activeTabContent (panel s3))
      (\<lambda>s5. updateStatusMessage msg ''success'' s5))"
  have sw: "switchToTab qs tabId s =
      (case qs sel (document s2) of
         Inl x \<Rightarrow> Throws x s2
       | Inr activeTabButton \<Rightarrow>
           and_then
             (case activeTabButton of None \<Rightarrow> Return s2 | Some b \<Rightarrow> classList_add ''active'' b s2)
             rest)"
    unfolding switchToTab_def Let_def s2_def sel_def msg_def rest_def panel_def ..
  have g2: "g s2 = g s"
    by (simp add: s2_def g)
  have gp: "g (panel s3) = g s3" for s3
    by (simp add: panel_def g)
  have rest: "g (state_after (rest s3)) = g s" if "g s3 = g s" for s3
    unfolding rest_def
  proof (rule and_then_frame)
    show "g (state_after (case getElementById (toString tabId) (document (panel s3)) of
         None \<Rightarrow> Return (panel s3)
       | Some activeTabContent \<Rightarrow> classList_add ''active'' activeTabContent (panel s3))) = g s"
      using that by (simp add: gp add split: option.splits)
  next
    fix s5 assume "g s5 = g s"
    then show "g (state_after (updateStatusMessage msg ''success'' s5)) = g s"
      by (simp only: usm)
  qed
  show ?thesis
  proof (cases "qs sel (document s2)")
    case (Inl x)
    then show ?thesis
      by (simp add: sw g2)
  next
    case (Inr a)
    have "g (state_after (and_then
             (case a of None \<Rightarrow> Return s2 | Some b \<Rightarrow> classList_add ''active'' b s2) rest)) = g s"
    proof (rule and_then_frame)
      show "g (state_after (case a of None \<Rightarrow> Return s2 | Some b \<Rightarrow> classList_add ''active'' b s2)) = g s"
        by (simp add: g2 add split: option.splits)
    next
      fix s3 assume "g s3 = g s"
      then show "g (state_after (rest s3)) = g s"
        by (rule rest)
    qed
    then show ?thesis
      by (simp add: sw Inr)
  qed
qed

lemma switchToTab_ctl:
  "isLoading (state_after (switchToTab qs tabId s)) = isLoading s"
  "timers (state_after (switchToTab qs tabId s)) = timers s"
  by (rule switchToTab_frame; simp)+

lemma tabButtonClick_ctl:
  "isLoading (state_after (tabButtonClick qs i s)) = isLoading s"
  "timers (state_after (tabButtonClick qs i s)) = timers s"
  by (simp_all add: tabButtonClick_def usm_frame switchToTab_ctl)

lemma menuItemClick_busy:
  assumes "isLoading s"
  shows "menuItemClick i r s = updateStatusMessage ''API call already in progress - Please wait'' ''error'' s"
  using assms by (simp add: menuItemClick_def)

lemma menuItemClick_idle:
  assumes "\<not> isLoading s"
  shows "menuItemClick i r s = simulateRestApiCall (dataItem (document s ! i)) r s"
  using assms by (simp add: menuItemClick_def)

lemma single_flight_step:
  assumes "single_flight s"
  shows "single_flight (step qs e s)"
proof (cases e)
  case (MenuItemClick i r)
  show ?thesis
  proof (cases "isLoading s")
    case True
    then show ?thesis
      using assms unfolding MenuItemClick
      by (simp add: menuItemClick_busy usm_frame single_flight_def)
  next
    case False
    then show ?thesis
      using assms unfolding MenuItemClick
      by (simp add: menuItemClick_idle simulateRestApiCall_ctl single_flight_def)
  qed
next
  case (TabButtonClick i)
  then show ?thesis
    using assms by (simp add: tabButtonClick_ctl single_flight_def)
next
  case (TimerFire k r t)
  show ?thesis
  proof (cases "k < length (timers s)")
    case True
    with assms have "isLoading s" "length (timers s) = 1" "k = 0"
      by (auto simp: single_flight_def split: if_splits)
    then show ?thesis
      unfolding TimerFire by (simp add: fire_def timerCallback_ctl single_flight_def)
  next
    case False
    then show ?thesis
      using assms unfolding TimerFire by simp
  qed
qed

lemma single_flight_run:
  "single_flight s \<Longrightarrow> single_flight (run qs es s)"
  by (induction es arbitrary: s) (simp_all add: single_flight_step)

lemma single_flight_initial: "single_flight (initial d)"
  by (simp add: initial_def single_flight_def usm_frame)

lemma click_while_busy:
  assumes "isLoading s" and "is_click e"
  shows "isLoading (step qs e s) \<and> timers (step qs e s) = timers s"
proof (cases e)
  case (MenuItemClick i r)
  then show ?thesis
    using assms by (simp add: menuItemClick_busy usm_frame)
next
  case (TabButtonClick i)
  then show ?thesis
    using assms by (simp add: tabButtonClick_ctl)
next
  case (TimerFire k r t)
  then show ?thesis
    using assms by simp
qed

lemma clicks_while_busy:
  assumes "isLoading s" and "list_all is_click cs"
  shows "isLoading (run qs cs s) \<and> timers (run qs cs s) = timers s"
  using assms
proof (induction cs arbitrary: s)
  case Nil
  then show ?case by simp
next
  case (Cons e cs)
  then have "isLoading (step qs e s)" "timers (step qs e s) = timers s" "list_all is_click cs"
    using click_while_busy [of s e qs] by simp_all
  then show ?case
    using Cons.IH [of "step qs e s"] by simp
qed

lemmas script_defs =
  updateStatusMessage_def getElementById_def modify_def classList_remove_def classList_add_def
  ascii_whitespace_def disableMenuItems_def forEach_class_def simulateRestApiCall_def
  timerCallback_def handleApiSuccess_def handleApiError_def menuItemClick_def
  tabButtonClick_def switchToTab_def getTabDisplayName_def tabNames_def fire_def initial_def
  node_def page0_def engine0_def Let_def

lemma disableMenuItems_nth:
  assumes "j < length (document s)"
  shows "textContent (document (disableMenuItems b s) ! j) = textContent (document s ! j)"
    and "classList (document (disableMenuItems b s) ! j) = classList (document s ! j)"
    and "dataItem (document (disableMenuItems b s) ! j) = dataItem (document s ! j)"
  using assms by (simp_all add: disableMenuItems_def forEach_class_def)

lemma disableMenuItems_enabled:
  assumes "e \<in> set (document (disableMenuItems False s))" and "''menu-item'' \<in> set (classList e)"
  shows "\<not> disabled e \<and> styleOpacity e = ''1'' \<and> styleCursor e = ''pointer''"
  using assms by (auto simp: disableMenuItems_def forEach_class_def split: if_splits)

lemma simulateRestApiCall_eq:
  obtains s1 where
    "updateStatusMessage (loading_text n) ''loading'' (s\<lparr>isLoading := True\<rparr>) = Return s1"
    "simulateRestApiCall n r s =
       Return ((disableMenuItems True s1)\<lparr>timers := timers s @ [\<lparr>timerItem = n, timerDelay = r * 2000 + 1000\<rparr>]\<rparr>)"
proof -
  obtain s1 where s1: "updateStatusMessage (loading_text n) ''loading'' (s\<lparr>isLoading := True\<rparr>) = Return s1"
    by (rule returnsE [OF usm_returns_literal(1)])
  have "timers s1 = timers s"
    using usm_frame(2) [of "loading_text n" "''loading''" "s\<lparr>isLoading := True\<rparr>", unfolded s1] by simp
  then have "simulateRestApiCall n r s =
       Return ((disableMenuItems True s1)\<lparr>timers := timers s @ [\<lparr>timerItem = n, timerDelay = r * 2000 + 1000\<rparr>]\<rparr>)"
    unfolding simulateRestApiCall_def loading_text_def [symmetric] s1 Let_def by simp
  with s1 show ?thesis ..
qed

lemma timerCallback_eq:
  obtains s1 where
    "updateStatusMessage (if r > 0.1 then success_text n t else failure_text n t)
       (if r > 0.1 then ''success'' else ''error'') s = Return s1"
    "timerCallback n r t s = Return (disableMenuItems False (s1\<lparr>isLoading := False\<rparr>))"
proof -
  define m where "m = (if r > 0.1 then success_text n t else failure_text n t)"
  define ty where "ty = (if r > 0.1 then ''success'' else ''error'')"
  have "returns (updateStatusMessage m ty s)"
    by (simp add: ty_def)
  then obtain s1 where s1: "updateStatusMessage m ty s = Return s1"
    by (rule returnsE)
  have "(if r > 0.1 then handleApiSuccess n t s else handleApiError n t s) = updateStatusMessage m ty s"
    unfolding handleApiSuccess_def handleApiError_def m_def ty_def success_text_def failure_text_def
    by (cases "r > 0.1") (simp_all only: if_True if_False)
  then have "timerCallback n r t s = Return (disableMenuItems False (s1\<lparr>isLoading := False\<rparr>))"
    unfolding timerCallback_def Let_def s1 by (simp only: and_then.simps)
  with s1 show ?thesis
    unfolding m_def ty_def ..
qed

lemma usm_status:
  assumes "getElementById ''statusMessage'' (document s) = Some k"
    and "\<not> list_ex ascii_whitespace ty" and "updateStatusMessage m ty s = Return s1"
  shows "document s1 ! k = shown m ty (document s ! k)"
    and "getElementById ''statusMessage'' (document s1) = Some k"
    and "length (document s1) = length (document s)"
proof -
  have k: "k < length (document s)"
    using assms(1) by (rule getElementById_bound)
  have eq: "s1 = s\<lparr>document := (document s)[k := shown m ty (document s ! k)]\<rparr>"
    using usm_Some [OF assms(1,2), of m] assms(3) by simp
  show "document s1 ! k = shown m ty (document s ! k)"
    using k by (simp add: eq)
  show "length (document s1) = length (document s)"
    by (simp add: eq)
  have "map elemId (document s1) = map elemId (document s)"
    using usm_ids [of m ty s] by (simp add: assms(3))
  then have "getElementById ''statusMessage'' (document s1) = getElementById ''statusMessage'' (document s)"
    by (rule getElementById_ids)
  then show "getElementById ''statusMessage'' (document s1) = Some k"
    using assms(1) by simp
qed

lemma shown_fields [simp]:
  "textContent (shown m ty e) = m"
  "dataItem (shown m ty e) = dataItem e"
  "dataTab (shown m ty e) = dataTab e"
  "disabled (shown m ty e) = disabled e"
  by (simp_all add: shown_def Let_def)

lemma shown_literal:
  "classList (shown m ''loading'' e) = filter (\<lambda>c. c \<notin> set status_classes) (classList e) @ [''loading'']"
  "classList (shown m ''success'' e) = filter (\<lambda>c. c \<notin> set status_classes) (classList e) @ [''success'']"
  "classList (shown m ''error'' e) = filter (\<lambda>c. c \<notin> set status_classes) (classList e) @ [''error'']"
  by (simp_all add: shown_def status_classes_def Let_def)

lemma timerCallback_status:
  assumes "getElementById ''statusMessage'' (document s) = Some k"
  shows "textContent (document (state_after (timerCallback n r t s)) ! k)
           = (if r > 0.1 then success_text n t else failure_text n t)"
    and "classList (document (state_after (timerCallback n r t s)) ! k)
           = filter (\<lambda>c. c \<notin> set status_classes) (classList (document s ! k))
               @ [if r > 0.1 then ''success'' else ''error'']"
    and "getElementById ''statusMessage'' (document (state_after (timerCallback n r t s))) = Some k"
proof -
  define m where "m = (if r > 0.1 then success_text n t else failure_text n t)"
  define ty where "ty = (if r > 0.1 then ''success'' else ''error'')"
  obtain s1 where s1: "updateStatusMessage m ty s = Return s1"
    and eq: "timerCallback n r t s = Return (disableMenuItems False (s1\<lparr>isLoading := False\<rparr>))"
    unfolding m_def ty_def by (rule timerCallback_eq)
  have k: "k < length (document s)"
    using assms by (rule getElementById_bound)
  have tok: "\<not> list_ex ascii_whitespace ty"
    by (simp add: ty_def ascii_whitespace_def)
  note st = usm_status [OF assms tok s1]
  have k1: "k < length (document (s1\<lparr>isLoading := False\<rparr>))"
    using k st(3) by simp
  show "textContent (document (state_after (timerCallback n r t s)) ! k)
           = (if r > 0.1 then success_text n t else failure_text n t)"
    using disableMenuItems_nth(1) [OF k1] by (simp add: eq st(1) m_def)
  show "classList (document (state_after (timerCallback n r t s)) ! k)
           = filter (\<lambda>c. c \<notin> set status_classes) (classList (document s ! k))
               @ [if r > 0.1 then ''success'' else ''error'']"
    using disableMenuItems_nth(2) [OF k1] by (simp add: eq st(1) ty_def shown_literal)
  have "map elemId (document (state_after (timerCallback n r t s))) = map elemId (document s1)"
    by (simp add: eq)
  then have "getElementById ''statusMessage'' (document (state_after (timerCallback n r t s)))
      = getElementById ''statusMessage'' (document s1)"
    by (rule getElementById_ids)
  then show "getElementById ''statusMessage'' (document (state_after (timerCallback n r t s))) = Some k"
    by (simp add: st(2))
qed

lemma simulateRestApiCall_status:
  assumes "getElementById ''statusMessage'' (document s) = Some k"
  shows "textContent (document (state_after (simulateRestApiCall n r s)) ! k) = loading_text n"
    and "getElementById ''statusMessage'' (document (state_after (simulateRestApiCall n r s))) = Some k"
proof -
  obtain s1 where s1: "updateStatusMessage (loading_text n) ''loading'' (s\<lparr>isLoading := True\<rparr>) = Return s1"
    and eq: "simulateRestApiCall n r s =
       Return ((disableMenuItems True s1)\<lparr>timers := timers s @ [\<lparr>timerItem = n, timerDelay = r * 2000 + 1000\<rparr>]\<rparr>)"
    by (rule simulateRestApiCall_eq)
  have a: "getElementById ''statusMessage'' (document (s\<lparr>isLoading := True\<rparr>)) = Some k"
    using assms by simp
  have k: "k < length (document s)"
    using assms by (rule getElementById_bound)
  note st = usm_status [OF a loading_token(1) s1]
  have k1: "k < length (document s1)"
    using k st(3) by simp
  show "textContent (document (state_after (simulateRestApiCall n r s)) ! k) = loading_text n"
    using disableMenuItems_nth(1) [OF k1] by (simp add: eq st(1))
  have "map elemId (document (state_after (simulateRestApiCall n r s))) = map elemId (document s1)"
    by (simp add: eq)
  then have "getElementById ''statusMessage'' (document (state_after (simulateRestApiCall n r s)))
      = getElementById ''statusMessage'' (document s1)"
    by (rule getElementById_ids)
  then show "getElementById ''statusMessage'' (document (state_after (simulateRestApiCall n r s))) = Some k"
    by (simp add: st(2))
qed

lemma texts_distinct:
  "success_text n t \<noteq> failure_text n t"
  "busy_text \<noteq> failure_text n t"
  "busy_text \<noteq> success_text n t"
  by (simp_all add: success_text_def failure_text_def busy_text_def)

lemma success_interval:
  "{r::real. 0 \<le> r \<and> r < 1 \<and> r > 0.1} = {1/10 <..< 1}"
  "{r::real. 0 \<le> r \<and> r < 1 \<and> \<not> r > 0.1} = {0 .. 1/10}"
  by auto

lemma interval_lengths:
  "Sup {1/10 <..< 1::real} - Inf {1/10 <..< 1::real} = 9/10"
  "Sup {0 .. 1/10::real} - Inf {0 .. 1/10::real} = 1/10"
  by simp_all

lemma click_while_busy_ids:
  assumes "isLoading s" and "is_click e"
  shows "map elemId (document (step qs e s)) = map elemId (document s)"
proof (cases e)
  case (MenuItemClick i r)
  then show ?thesis
    using assms by (simp add: menuItemClick_busy usm_ids)
next
  case (TabButtonClick i)
  then show ?thesis
    using assms by (simp add: tabButtonClick_def usm_ids)
next
  case (TimerFire k r t)
  then show ?thesis
    using assms by simp
qed

lemma clicks_while_busy_ids:
  assumes "isLoading s" and "list_all is_click cs"
  shows "map elemId (document (run qs cs s)) = map elemId (document s)"
  using assms
proof (induction cs arbitrary: s)
  case Nil
  then show ?case by simp
next
  case (Cons e cs)
  then have "isLoading (step qs e s)" "list_all is_click cs"
    "map elemId (document (step qs e s)) = map elemId (document s)"
    using click_while_busy [of s e qs] click_while_busy_ids [of s e qs] by simp_all
  then show ?case
    using Cons.IH [of "step qs e s"] by simp
qed

lemma fire_single:
  assumes "timers s = [T]"
  shows "step qs (TimerFire 0 r t) s = state_after (timerCallback (timerItem T) r t (s\<lparr>timers := []\<rparr>))"
  using assms by (simp add: fire_def)

lemma reachable_single_flight:
  "single_flight (run qs es (initial d))"
  by (rule single_flight_run) (rule single_flight_initial)

lemma completed_states_differ_in_status:
  assumes "getElementById ''statusMessage'' (document s) = Some k"
    and "r1 > 0.1" and "\<not> r2 > 0.1"
  shows "state_after (timerCallback n r2 t s)
       = (state_after (timerCallback n r1 t s))
           \<lparr>document := (document (state_after (timerCallback n r1 t s)))
              [k := (document (state_after (timerCallback n r1 t s)) ! k)
                 \<lparr>textContent := failure_text n t,
                  classList := filter (\<lambda>c. c \<notin> set status_classes) (classList (document s ! k))
                                 @ [''error'']\<rparr>]\<rparr>"
proof -
  have k: "k < length (document s)"
    using assms(1) by (rule getElementById_bound)
  obtain a where a: "updateStatusMessage (success_text n t) ''success'' s = Return a"
    and ok: "timerCallback n r1 t s = Return (disableMenuItems False (a\<lparr>isLoading := False\<rparr>))"
    using timerCallback_eq [of r1 n t s] assms(2) by auto
  obtain b where b: "updateStatusMessage (failure_text n t) ''error'' s = Return b"
    and ko: "timerCallback n r2 t s = Return (disableMenuItems False (b\<lparr>isLoading := False\<rparr>))"
    using timerCallback_eq [of r2 n t s] assms(3) by auto
  have a_eq: "a = s\<lparr>document := (document s)[k := shown (success_text n t) ''success'' (document s ! k)]\<rparr>"
    using usm_Some [OF assms(1) loading_token(2), of "success_text n t"] a by simp
  have b_eq: "b = s\<lparr>document := (document s)[k := shown (failure_text n t) ''error'' (document s ! k)]\<rparr>"
    using usm_Some [OF assms(1) loading_token(3), of "failure_text n t"] b by simp
  define g where "g = (\<lambda>e::element. if ''menu-item'' \<in> set (classList e)
      then e\<lparr>disabled := False, styleOpacity := ''1'', styleCursor := ''pointer''\<rparr> else e)"
  have dm: "disableMenuItems False x = x\<lparr>document := map g (document x)\<rparr>" for x
    by (simp add: disableMenuItems_def forEach_class_def g_def)
  have el: "g (shown (failure_text n t) ''error'' e)
      = (g (shown (success_text n t) ''success'' e))
          \<lparr>textContent := failure_text n t,
           classList := filter (\<lambda>c. c \<notin> set status_classes) (classList e) @ [''error'']\<rparr>" for e
    by (cases e) (simp add: g_def shown_def status_classes_def Let_def)
  show ?thesis
    unfolding ok ko a_eq b_eq dm
    using k by (simp add: map_update el)
qed

section \<open>The single-flight controller\<close>

text \<open>
  C1. Single-flight invariant. In every state the script reaches from the loaded page, by
  any sequence of clicks and timer firings, the busy flag is set exactly when one
  completion timer is pending, and no timer is pending otherwise: at most one operation
  is in flight. A click on a menu item in a busy state is rejected: the flag and the
  pending timer stay as they are. A click on a menu item in an idle state is accepted, it
  schedules the one timer for the clicked item, and every click that follows before the
  timer fires leaves the state busy with that same timer.
\<close>

theorem single_flight_invariant:
  assumes "s = run qs es (initial d)"
  shows "single_flight s \<and>
    (isLoading s \<longrightarrow>
       (\<forall>i r. i < length (document s) \<longrightarrow>
          isLoading (step qs (MenuItemClick i r) s) \<and>
          timers (step qs (MenuItemClick i r) s) = timers s)) \<and>
    (\<not> isLoading s \<longrightarrow>
       (\<forall>i r cs. i < length (document s) \<and> list_all is_click cs \<longrightarrow>
          (let s1 = step qs (MenuItemClick i r) s; s2 = run qs cs s1
           in isLoading s1 \<and>
              timers s1 = [\<lparr>timerItem = dataItem (document s ! i), timerDelay = r * 2000 + 1000\<rparr>] \<and>
              isLoading s2 \<and> timers s2 = timers s1)))"
proof (intro conjI impI allI)
  show sf: "single_flight s"
    unfolding assms by (rule single_flight_run) (rule single_flight_initial)
  {
    fix i r
    assume busy: "isLoading s" and i: "i < length (document s)"
    show "isLoading (step qs (MenuItemClick i r) s)"
      using click_while_busy [OF busy, of "MenuItemClick i r" qs] by simp
    show "timers (step qs (MenuItemClick i r) s) = timers s"
      using click_while_busy [OF busy, of "MenuItemClick i r" qs] by simp
  }
  fix i r cs
  assume idle: "\<not> isLoading s" and "i < length (document s) \<and> list_all is_click cs"
  then have i: "i < length (document s)" and cs: "list_all is_click cs"
    by simp_all
  have none: "timers s = []"
    using sf idle by (simp add: single_flight_def)
  define s1 where "s1 = step qs (MenuItemClick i r) s"
  have s1: "isLoading s1"
    "timers s1 = [\<lparr>timerItem = dataItem (document s ! i), timerDelay = r * 2000 + 1000\<rparr>]"
    using i idle none by (simp_all add: s1_def menuItemClick_idle simulateRestApiCall_ctl)
  have "isLoading (run qs cs s1) \<and> timers (run qs cs s1) = timers s1"
    using s1(1) cs by (rule clicks_while_busy)
  with s1 show "let s1 = step qs (MenuItemClick i r) s; s2 = run qs cs s1
           in isLoading s1 \<and>
              timers s1 = [\<lparr>timerItem = dataItem (document s ! i), timerDelay = r * 2000 + 1000\<rparr>] \<and>
              isLoading s2 \<and> timers s2 = timers s1"
    by (simp add: s1_def Let_def)
qed

theorem single_flight_invariant_witness:
  "single_flight (run engine0 [MenuItemClick 5 (1/2)] (initial page0)) \<and>
   isLoading (run engine0 [MenuItemClick 5 (1/2)] (initial page0)) \<and>
   timers (step engine0 (MenuItemClick 6 (1/4)) (run engine0 [MenuItemClick 5 (1/2)] (initial page0)))
     = timers (run engine0 [MenuItemClick 5 (1/2)] (initial page0)) \<and>
   \<not> isLoading (run engine0 [] (initial page0)) \<and>
   timers (run engine0 [MenuItemClick 6 (1/4), TabButtonClick 2]
            (step engine0 (MenuItemClick 5 (1/2)) (run engine0 [] (initial page0))))
     = [\<lparr>timerItem = Some ''Pizza'', timerDelay = 2000\<rparr>]"
proof -
  define busy where "busy = run engine0 [MenuItemClick 5 (1/2)] (initial page0)"
  define idle where "idle = run engine0 [] (initial page0)"
  have busy: "isLoading busy" "6 < length (document busy)"
    by (simp_all add: busy_def script_defs)
  have idle: "\<not> isLoading idle" "5 < length (document idle)" "dataItem (document idle ! 5) = Some ''Pizza''"
    by (simp_all add: idle_def script_defs)
  have clicks: "list_all is_click [MenuItemClick 6 (1/4), TabButtonClick 2]"
    by simp
  note at_busy = single_flight_invariant [OF busy_def]
  note at_idle = single_flight_invariant [OF idle_def]
  have "single_flight busy"
    using at_busy by (rule conjunct1)
  moreover have "timers (step engine0 (MenuItemClick 6 (1/4)) busy) = timers busy"
    using at_busy [THEN conjunct2, THEN conjunct1, rule_format, OF busy] by (rule conjunct2)
  moreover have "timers (run engine0 [MenuItemClick 6 (1/4), TabButtonClick 2]
            (step engine0 (MenuItemClick 5 (1/2)) idle)) = [\<lparr>timerItem = Some ''Pizza'', timerDelay = 2000\<rparr>]"
    using at_idle [THEN conjunct2, THEN conjunct2, rule_format, OF idle(1) conjI [OF idle(2) clicks], of "1/2"]
    by (simp add: Let_def idle(3) del: run.simps step.simps)
  ultimately show ?thesis
    using busy(1) idle(1) unfolding busy_def idle_def by simp
qed

text \<open>
  C2. Return to idle. In every busy state the script reaches, exactly one timer is
  pending; when it fires the callback returns, the busy flag is cleared, no timer is
  pending, every menu item is enabled again with its opacity and cursor restored, and a
  click on any menu item after that is accepted: it sets the flag and schedules one timer
  for the clicked item.
\<close>

theorem completion_returns_to_idle:
  assumes "s = run qs es (initial d)" and "isLoading s"
  shows "let s' = step qs (TimerFire 0 r t) s
         in length (timers s) = 1 \<and> returns (fire 0 r t s) \<and>
            \<not> isLoading s' \<and> timers s' = [] \<and>
            (\<forall>e \<in> set (document s'). ''menu-item'' \<in> set (classList e) \<longrightarrow>
               \<not> disabled e \<and> styleOpacity e = ''1'' \<and> styleCursor e = ''pointer'') \<and>
            (\<forall>i r'. i < length (document s') \<longrightarrow>
               (let s'' = step qs (MenuItemClick i r') s'
                in returns (menuItemClick i r' s') \<and> isLoading s'' \<and>
                   timers s'' = [\<lparr>timerItem = dataItem (document s' ! i),
                                  timerDelay = r' * 2000 + 1000\<rparr>]))"
proof -
  have "single_flight s"
    unfolding assms(1) by (rule single_flight_run) (rule single_flight_initial)
  then have one: "length (timers s) = 1"
    using assms(2) by (simp add: single_flight_def)
  define s0 where "s0 = s\<lparr>timers := take 0 (timers s) @ drop (Suc 0) (timers s)\<rparr>"
  define s' where "s' = step qs (TimerFire 0 r t) s"
  have s0: "timers s0 = []"
    using one by (simp add: s0_def)
  have s'_eq: "s' = state_after (timerCallback (timerItem (timers s ! 0)) r t s0)"
    using one by (simp add: s'_def s0_def fire_def)
  have ret: "returns (fire 0 r t s)"
    by (simp add: fire_def timerCallback_ctl)
  have idle: "\<not> isLoading s'" and none: "timers s' = []"
    by (simp_all add: s'_eq timerCallback_ctl s0)
  have enabled: "\<not> disabled e \<and> styleOpacity e = ''1'' \<and> styleCursor e = ''pointer''"
    if "e \<in> set (document s')" and "''menu-item'' \<in> set (classList e)" for e
  proof -
    obtain s1 where "timerCallback (timerItem (timers s ! 0)) r t s0
        = Return (disableMenuItems False (s1\<lparr>isLoading := False\<rparr>))"
      by (rule timerCallback_eq)
    then have "s' = disableMenuItems False (s1\<lparr>isLoading := False\<rparr>)"
      by (simp add: s'_eq)
    with that show ?thesis
      using disableMenuItems_enabled by blast
  qed
  have again: "returns (menuItemClick i r' s') \<and> isLoading (step qs (MenuItemClick i r') s') \<and>
      timers (step qs (MenuItemClick i r') s')
        = [\<lparr>timerItem = dataItem (document s' ! i), timerDelay = r' * 2000 + 1000\<rparr>]"
    if "i < length (document s')" for i r'
    using that idle none by (simp add: menuItemClick_idle simulateRestApiCall_ctl)
  show ?thesis
    unfolding Let_def s'_def [symmetric]
    using one ret idle none enabled again by blast
qed

theorem completion_returns_to_idle_witness:
  "isLoading (run engine0 [MenuItemClick 5 (1/2)] (initial page0)) \<and>
   \<not> isLoading (step engine0 (TimerFire 0 (1/2) ''10:00:00'')
                  (run engine0 [MenuItemClick 5 (1/2)] (initial page0))) \<and>
   \<not> disabled (document (step engine0 (TimerFire 0 (1/2) ''10:00:00'')
                  (run engine0 [MenuItemClick 5 (1/2)] (initial page0))) ! 5) \<and>
   timers (step engine0 (MenuItemClick 6 (1/4))
            (step engine0 (TimerFire 0 (1/2) ''10:00:00'')
               (run engine0 [MenuItemClick 5 (1/2)] (initial page0))))
     = [\<lparr>timerItem = Some ''Soda'', timerDelay = 1500\<rparr>]"
proof -
  define busy where "busy = run engine0 [MenuItemClick 5 (1/2)] (initial page0)"
  define fin where "fin = step engine0 (TimerFire 0 (1/2) ''10:00:00'') busy"
  have busy: "isLoading busy"
    by (simp add: busy_def script_defs)
  have page: "length (document fin) = 7" "dataItem (document fin ! 6) = Some ''Soda''"
    "''menu-item'' \<in> set (classList (document fin ! 5))"
    by (simp_all add: fin_def busy_def script_defs)
  note at_busy = completion_returns_to_idle [OF busy_def busy, of "1/2" "''10:00:00''",
      unfolded Let_def, folded fin_def]
  have idle: "\<not> isLoading fin"
    using at_busy by simp
  have "document fin ! 5 \<in> set (document fin)"
    using page(1) by simp
  then have enabled: "\<not> disabled (document fin ! 5)"
    using at_busy page(3) by blast
  have "6 < length (document fin)"
    using page(1) by simp
  then have "timers (step engine0 (MenuItemClick 6 (1/4)) fin)
      = [\<lparr>timerItem = dataItem (document fin ! 6), timerDelay = (1/4) * 2000 + 1000\<rparr>]"
    using at_busy by blast
  then have "timers (step engine0 (MenuItemClick 6 (1/4)) fin)
      = [\<lparr>timerItem = Some ''Soda'', timerDelay = 1500\<rparr>]"
    by (simp add: page(2))
  with busy idle enabled show ?thesis
    unfolding fin_def busy_def by simp
qed

text \<open>
  C3. Rejection atomicity. In a busy state the click listener of a menu item does nothing
  but call \<^verbatim>\<open>updateStatusMessage\<close> with the advisory and the type \<^verbatim>\<open>error\<close>, and returns:
  the busy flag, the pending timers with the items they carry, and the current tab are
  unchanged, so nothing is scheduled or queued. The whole change of the state is the
  notification: the status element, where the page has one, shows the advisory and carries
  the class \<^verbatim>\<open>error\<close> in place of its former styling class.
\<close>

theorem rejection_leaves_controller_unchanged:
  assumes "isLoading s"
  shows "let s' = state_after (menuItemClick i r s)
         in menuItemClick i r s = updateStatusMessage busy_text ''error'' s \<and>
            returns (menuItemClick i r s) \<and>
            isLoading s' \<and> timers s' = timers s \<and> currentTab s' = currentTab s \<and>
            (case getElementById ''statusMessage'' (document s) of
               None \<Rightarrow> s' = s
             | Some k \<Rightarrow>
                 s' = s\<lparr>document := (document s)
                        [k := (document s ! k)
                           \<lparr>textContent := busy_text,
                            classList := filter (\<lambda>c. c \<notin> set status_classes)
                                           (classList (document s ! k)) @ [''error'']\<rparr>]\<rparr>)"
proof -
  have eq: "menuItemClick i r s = updateStatusMessage busy_text ''error'' s"
    unfolding busy_text_def using assms by (rule menuItemClick_busy)
  have ret: "returns (updateStatusMessage busy_text ''error'' s)"
    by simp
  have shown: "shown busy_text ''error'' e =
      e\<lparr>textContent := busy_text,
        classList := filter (\<lambda>c. c \<notin> set status_classes) (classList e) @ [''error'']\<rparr>" for e
    by (simp add: shown_def status_classes_def Let_def)
  have "case getElementById ''statusMessage'' (document s) of
               None \<Rightarrow> state_after (updateStatusMessage busy_text ''error'' s) = s
             | Some k \<Rightarrow>
                 state_after (updateStatusMessage busy_text ''error'' s) = s\<lparr>document := (document s)
                        [k := (document s ! k)
                           \<lparr>textContent := busy_text,
                            classList := filter (\<lambda>c. c \<notin> set status_classes)
                                           (classList (document s ! k)) @ [''error'']\<rparr>]\<rparr>"
  proof (cases "getElementById ''statusMessage'' (document s)")
    case None
    then show ?thesis
      by (simp add: usm_None)
  next
    case (Some k)
    have "updateStatusMessage busy_text ''error'' s
        = Return (s\<lparr>document := (document s)[k := shown busy_text ''error'' (document s ! k)]\<rparr>)"
      using Some by (rule usm_Some) (rule loading_token)
    then show ?thesis
      by (simp add: Some shown)
  qed
  then show ?thesis
    unfolding Let_def eq using ret assms by (simp add: usm_frame)
qed

theorem rejection_leaves_controller_unchanged_witness:
  "isLoading loading0 \<and>
   isLoading (state_after (menuItemClick 1 (1/2) loading0)) \<and>
   timers (state_after (menuItemClick 1 (1/2) loading0))
     = [\<lparr>timerItem = Some ''Pizza'', timerDelay = 2000\<rparr>] \<and>
   state_after (menuItemClick 1 (1/2) loading0)
     = loading0\<lparr>document := (document loading0)
          [0 := (document loading0 ! 0)\<lparr>textContent := busy_text,
                   classList := [''status-message'', ''error'']\<rparr>]\<rparr>"
proof -
  define s' where "s' = state_after (menuItemClick 1 (1/2) loading0)"
  have busy: "isLoading loading0"
    by (simp add: loading0_def)
  have k: "getElementById ''statusMessage'' (document loading0) = Some 0"
    by (simp add: loading0_def getElementById_def node_def)
  have tm: "timers loading0 = [\<lparr>timerItem = Some ''Pizza'', timerDelay = 2000\<rparr>]"
    "filter (\<lambda>c. c \<notin> set status_classes) (classList (document loading0 ! 0)) = [''status-message'']"
    by (simp_all add: loading0_def node_def status_classes_def)
  note at_loading = rejection_leaves_controller_unchanged [OF busy, of 1 "1/2",
      unfolded Let_def, folded s'_def]
  have "isLoading s'" and "timers s' = timers loading0"
    using at_loading by blast+
  moreover have "s' = loading0\<lparr>document := (document loading0)
          [0 := (document loading0 ! 0)\<lparr>textContent := busy_text,
                   classList := filter (\<lambda>c. c \<notin> set status_classes)
                       (classList (document loading0 ! 0)) @ [''error'']\<rparr>]\<rparr>"
    using at_loading unfolding k by simp
  ultimately show ?thesis
    using busy unfolding s'_def tm by simp
qed

section \<open>Delay and outcome\<close>

text \<open>
  C4. The claim that delay and success probability are injected parameters does not hold
  of the script: \<^verbatim>\<open>simulateRestApiCall\<close> takes the item name only, computes the delay as
  \<^verbatim>\<open>Math.random() * 2000 + 1000\<close> and decides success by \<^verbatim>\<open>Math.random() > 0.1\<close>. On the
  small page, the least value 0 of the random source schedules the timer after 1000
  milliseconds, not 0, and the same accepted click completes as a failure when the
  callback draws 1/20 and as a success when it draws 1/2: neither outcome can be forced.
\<close>

theorem injected_delay_and_probability_counterexample:
  "timers (run engine0 [MenuItemClick 5 0] (initial page0))
     = [\<lparr>timerItem = Some ''Pizza'', timerDelay = 1000\<rparr>] \<and>
   textContent (document (run engine0 [MenuItemClick 5 0, TimerFire 0 (1/20) ''10:00:00'']
       (initial page0)) ! 0)
     = failure_text (Some ''Pizza'') ''10:00:00'' \<and>
   textContent (document (run engine0 [MenuItemClick 5 0, TimerFire 0 (1/2) ''10:00:00'']
       (initial page0)) ! 0)
     = success_text (Some ''Pizza'') ''10:00:00''"
  by (simp add: script_defs success_text_def failure_text_def)

text \<open>
  C4, as it holds of the script. From an idle state the script reaches, on a page with the
  status element, a click on a menu item with a draw in \<open>[0, 1)\<close> schedules the one timer
  for the item with a delay of at least 1000 milliseconds; every click that follows before
  the timer fires leaves the controller busy with that timer, so no other call is accepted
  before the outcome is delivered; and when the timer fires the controller is idle and the
  status element shows the success message for the item if the callback's draw exceeds
  0.1, and the failure message for the item otherwise.
\<close>

theorem hard_coded_delay_and_threshold:
  assumes "s = run qs es (initial d)" and "\<not> isLoading s" and "i < length (document s)"
    and "0 \<le> r1" and "r1 < 1" and "list_all is_click cs"
    and "getElementById ''statusMessage'' (document s) = Some k"
  shows "let itemName = dataItem (document s ! i);
             s1 = step qs (MenuItemClick i r1) s;
             s2 = run qs cs s1;
             s3 = step qs (TimerFire 0 r2 t) s2
         in timers s1 = [\<lparr>timerItem = itemName, timerDelay = r1 * 2000 + 1000\<rparr>] \<and>
            1000 \<le> timerDelay (hd (timers s1)) \<and>
            isLoading s2 \<and> timers s2 = timers s1 \<and>
            \<not> isLoading s3 \<and> timers s3 = [] \<and>
            textContent (document s3 ! k)
              = (if r2 > 0.1 then success_text itemName t else failure_text itemName t)"
proof -
  define itemName where "itemName = dataItem (document s ! i)"
  define s1 where "s1 = step qs (MenuItemClick i r1) s"
  define s2 where "s2 = run qs cs s1"
  define s3 where "s3 = step qs (TimerFire 0 r2 t) s2"
  have none: "timers s = []"
    using reachable_single_flight [of qs es d] assms(1,2) by (simp add: single_flight_def)
  have s1_eq: "s1 = state_after (simulateRestApiCall itemName r1 s)"
    using assms(2,3) by (simp add: s1_def itemName_def menuItemClick_idle)
  have busy1: "isLoading s1"
    and pending: "timers s1 = [\<lparr>timerItem = itemName, timerDelay = r1 * 2000 + 1000\<rparr>]"
    by (simp_all add: s1_eq simulateRestApiCall_ctl none)
  have delay: "1000 \<le> timerDelay (hd (timers s1))"
    using assms(4) by (simp add: pending)
  have k1: "getElementById ''statusMessage'' (document s1) = Some k"
    unfolding s1_eq using assms(7) by (rule simulateRestApiCall_status)
  have busy2: "isLoading s2" and same: "timers s2 = timers s1"
    using clicks_while_busy [OF busy1 assms(6), of qs] by (simp_all add: s2_def)
  have "map elemId (document s2) = map elemId (document s1)"
    unfolding s2_def using busy1 assms(6) by (rule clicks_while_busy_ids)
  then have "getElementById ''statusMessage'' (document s2) = getElementById ''statusMessage'' (document s1)"
    by (rule getElementById_ids)
  then have k2: "getElementById ''statusMessage'' (document (s2\<lparr>timers := []\<rparr>)) = Some k"
    using k1 by simp
  have s3_eq: "s3 = state_after (timerCallback itemName r2 t (s2\<lparr>timers := []\<rparr>))"
    unfolding s3_def using fire_single [of s2 "\<lparr>timerItem = itemName, timerDelay = r1 * 2000 + 1000\<rparr>"]
    by (simp add: same pending)
  have idle: "\<not> isLoading s3" and empty: "timers s3 = []"
    by (simp_all add: s3_eq timerCallback_ctl)
  have outcome: "textContent (document s3 ! k)
      = (if r2 > 0.1 then success_text itemName t else failure_text itemName t)"
    unfolding s3_eq using k2 by (rule timerCallback_status)
  show ?thesis
    unfolding Let_def itemName_def [symmetric] s1_def [symmetric] s2_def [symmetric]
      s3_def [symmetric]
    using pending delay busy2 same idle empty outcome by simp
qed

theorem hard_coded_delay_and_threshold_witness:
  "\<not> isLoading (run engine0 [] (initial page0)) \<and> (0::real) \<le> 0 \<and> (0::real) < 1 \<and>
   list_all is_click [MenuItemClick 6 (1/4), TabButtonClick 2] \<and>
   timers (step engine0 (MenuItemClick 5 0) (run engine0 [] (initial page0)))
     = [\<lparr>timerItem = Some ''Pizza'', timerDelay = 1000\<rparr>] \<and>
   timers (run engine0 [MenuItemClick 6 (1/4), TabButtonClick 2]
       (step engine0 (MenuItemClick 5 0) (run engine0 [] (initial page0))))
     = [\<lparr>timerItem = Some ''Pizza'', timerDelay = 1000\<rparr>] \<and>
   textContent (document (step engine0 (TimerFire 0 (1/2) ''10:00:00'')
       (run engine0 [MenuItemClick 6 (1/4), TabButtonClick 2]
          (step engine0 (MenuItemClick 5 0) (run engine0 [] (initial page0))))) ! 0)
     = success_text (Some ''Pizza'') ''10:00:00''"
proof -
  define idle where "idle = run engine0 [] (initial page0)"
  have idle: "\<not> isLoading idle" "5 < length (document idle)"
    "getElementById ''statusMessage'' (document idle) = Some 0"
    by (simp_all add: idle_def script_defs)
  have item: "dataItem (document idle ! 5) = Some ''Pizza''"
    by (simp add: idle_def script_defs)
  have r: "(0::real) \<le> 0" "(0::real) < 1"
    by simp_all
  have clicks: "list_all is_click [MenuItemClick 6 (1/4), TabButtonClick 2]"
    by simp
  note cycle = hard_coded_delay_and_threshold [OF idle_def idle(1,2) r clicks idle(3),
      of "1/2" "''10:00:00''", unfolded Let_def item]
  have "timers (step engine0 (MenuItemClick 5 0) idle)
      = [\<lparr>timerItem = Some ''Pizza'', timerDelay = 0 * 2000 + 1000\<rparr>]"
    using cycle by (rule conjunct1)
  moreover have "timers (run engine0 [MenuItemClick 6 (1/4), TabButtonClick 2]
       (step engine0 (MenuItemClick 5 0) idle)) = timers (step engine0 (MenuItemClick 5 0) idle)"
    using cycle by blast
  moreover have "textContent (document (step engine0 (TimerFire 0 (1/2) ''10:00:00'')
       (run engine0 [MenuItemClick 6 (1/4), TabButtonClick 2]
          (step engine0 (MenuItemClick 5 0) idle))) ! 0)
     = (if (1/2::real) > 0.1 then success_text (Some ''Pizza'') ''10:00:00''
        else failure_text (Some ''Pizza'') ''10:00:00'')"
    using cycle by blast
  ultimately show ?thesis
    using idle(1) clicks unfolding idle_def by (simp del: step.simps run.simps)
qed

text \<open>
  C5. Delay range. A click on a menu item in an idle state, with the value \<open>r\<close> of
  \<^verbatim>\<open>Math.random()\<close> in \<open>[0, 1)\<close>, sets the busy flag and schedules one more timer, for the
  clicked item, with the delay \<open>r * 2000 + 1000\<close>, which lies between 1000 and 3000
  milliseconds.
\<close>

theorem accepted_delay_range:
  assumes "\<not> isLoading s" and "i < length (document s)" and "0 \<le> r" and "r < 1"
  shows "let s' = step qs (MenuItemClick i r) s
         in returns (menuItemClick i r s) \<and> isLoading s' \<and>
            timers s' = timers s @ [\<lparr>timerItem = dataItem (document s ! i),
                                     timerDelay = r * 2000 + 1000\<rparr>] \<and>
            1000 \<le> timerDelay (last (timers s')) \<and> timerDelay (last (timers s')) \<le> 3000"
  using assms by (simp add: menuItemClick_idle simulateRestApiCall_ctl Let_def)

theorem accepted_delay_range_witness:
  "\<not> isLoading (initial page0) \<and> (0::real) \<le> 1/4 \<and> (1/4::real) < 1 \<and>
   isLoading (step engine0 (MenuItemClick 5 (1/4)) (initial page0)) \<and>
   timers (step engine0 (MenuItemClick 5 (1/4)) (initial page0))
     = [\<lparr>timerItem = Some ''Pizza'', timerDelay = 1500\<rparr>] \<and>
   timerDelay (last (timers (step engine0 (MenuItemClick 5 (1/4)) (initial page0)))) \<le> 3000"
proof -
  have idle: "\<not> isLoading (initial page0)" "5 < length (document (initial page0))"
    by (simp_all add: script_defs)
  have page: "timers (initial page0) = []" "dataItem (document (initial page0) ! 5) = Some ''Pizza''"
    by (simp_all add: script_defs)
  have r: "(0::real) \<le> 1/4" "(1/4::real) < 1"
    by simp_all
  show ?thesis
    using accepted_delay_range [OF idle r, of engine0] idle(1)
    by (simp add: Let_def page del: step.simps)
qed

text \<open>
  C6. Success probability. The timer callback always returns, and on a page with the
  status element it shows the success message when its value \<open>r\<close> of \<^verbatim>\<open>Math.random()\<close>
  exceeds 0.1 and the failure message otherwise; the two messages differ, so each
  completion has exactly one of the two outcomes. Among the values in \<open>[0, 1)\<close> the
  successes are the open interval from 1/10 to 1, of length 9/10, and the failures are
  the closed interval from 0 to 1/10.
\<close>

theorem outcome_by_random_draw:
  assumes "getElementById ''statusMessage'' (document s) = Some k"
  shows "let shownText = (\<lambda>r. textContent (document (state_after (timerCallback n r t s)) ! k))
         in (\<forall>r. returns (timerCallback n r t s) \<and>
                  shownText r = (if r > 0.1 then success_text n t else failure_text n t)) \<and>
            success_text n t \<noteq> failure_text n t \<and>
            {r. 0 \<le> r \<and> r < 1 \<and> shownText r = success_text n t} = {1/10 <..< 1} \<and>
            {r. 0 \<le> r \<and> r < 1 \<and> shownText r = failure_text n t} = {0 .. 1/10} \<and>
            Sup {1/10 <..< 1::real} - Inf {1/10 <..< 1::real} = 9/10"
proof -
  define shownText where
    "shownText = (\<lambda>r. textContent (document (state_after (timerCallback n r t s)) ! k))"
  have text_of: "shownText r = (if r > 0.1 then success_text n t else failure_text n t)" for r
    unfolding shownText_def using assms by (rule timerCallback_status)
  have ne: "success_text n t \<noteq> failure_text n t"
    by (rule texts_distinct)
  have "{r. 0 \<le> r \<and> r < 1 \<and> shownText r = success_text n t} = {r. 0 \<le> r \<and> r < 1 \<and> r > 0.1}"
    using ne by (auto simp: text_of)
  then have ok: "{r. 0 \<le> r \<and> r < 1 \<and> shownText r = success_text n t} = {1/10 <..< 1}"
    by (simp only: success_interval)
  have "{r. 0 \<le> r \<and> r < 1 \<and> shownText r = failure_text n t} = {r. 0 \<le> r \<and> r < 1 \<and> \<not> r > 0.1}"
    using ne by (auto simp: text_of)
  then have ko: "{r. 0 \<le> r \<and> r < 1 \<and> shownText r = failure_text n t} = {0 .. 1/10}"
    by (simp only: success_interval)
  have ret: "returns (timerCallback n r t s)" for r
    by (rule timerCallback_ctl)
  show ?thesis
    unfolding Let_def shownText_def [symmetric]
    using text_of ne ok ko ret interval_lengths(1) by blast
qed

theorem outcome_by_random_draw_witness:
  "textContent (document (state_after
       (timerCallback (Some ''Pizza'') (1/2) ''10:00:00'' loading0)) ! 0)
     = success_text (Some ''Pizza'') ''10:00:00'' \<and>
   textContent (document (state_after
       (timerCallback (Some ''Pizza'') (1/20) ''10:00:00'' loading0)) ! 0)
     = failure_text (Some ''Pizza'') ''10:00:00''"
proof -
  have k: "getElementById ''statusMessage'' (document loading0) = Some 0"
    by (simp add: loading0_def getElementById_def node_def)
  note at_loading = outcome_by_random_draw [OF k, of "Some ''Pizza''" "''10:00:00''", unfolded Let_def]
  have "textContent (document (state_after (timerCallback (Some ''Pizza'') r ''10:00:00'' loading0)) ! 0)
      = (if r > 0.1 then success_text (Some ''Pizza'') ''10:00:00''
         else failure_text (Some ''Pizza'') ''10:00:00'')" for r
    using at_loading by blast
  from this [of "1/2"] this [of "1/20"] show ?thesis
    by simp
qed

section \<open>Rejection and failure\<close>

text \<open>
  C7. Rejection against failure. On a page with the status element, a rejected click
  shows the busy advisory and leaves the controller busy with its timers, while a
  completion that failed shows the failure message and leaves the controller idle; the
  advisory differs from the failure message and from the success message of every item
  and time. A failure is shown the way a success is: both messages carry the item name
  and the time, the class is \<^verbatim>\<open>error\<close> in place of \<^verbatim>\<open>success\<close>, and the states after a
  failed and after a succeeded completion differ in nothing but the text and the class
  list of the status element.
\<close>

theorem rejection_distinct_from_failure:
  assumes "getElementById ''statusMessage'' (document s) = Some k"
    and "isLoading s" and "r1 > 0.1" and "\<not> r2 > 0.1"
  shows "let rejected = state_after (menuItemClick i r s);
             succeeded = state_after (timerCallback n r1 t s);
             failed = state_after (timerCallback n r2 t s);
             base = filter (\<lambda>c. c \<notin> set status_classes) (classList (document s ! k))
         in textContent (document rejected ! k) = busy_text \<and>
            textContent (document failed ! k) = failure_text n t \<and>
            textContent (document succeeded ! k) = success_text n t \<and>
            busy_text \<noteq> failure_text n t \<and> busy_text \<noteq> success_text n t \<and>
            isLoading rejected \<and> timers rejected = timers s \<and> \<not> isLoading failed \<and>
            classList (document succeeded ! k) = base @ [''success''] \<and>
            classList (document failed ! k) = base @ [''error''] \<and>
            failed = succeeded\<lparr>document := (document succeeded)
                       [k := (document succeeded ! k)
                          \<lparr>textContent := failure_text n t, classList := base @ [''error'']\<rparr>]\<rparr>"
proof -
  have k: "k < length (document s)"
    using assms(1) by (rule getElementById_bound)
  have rej: "menuItemClick i r s = updateStatusMessage busy_text ''error'' s"
    unfolding busy_text_def using assms(2) by (rule menuItemClick_busy)
  have "updateStatusMessage busy_text ''error'' s
      = Return (s\<lparr>document := (document s)[k := shown busy_text ''error'' (document s ! k)]\<rparr>)"
    using assms(1) by (rule usm_Some) (rule loading_token)
  then have t_rej: "textContent (document (state_after (menuItemClick i r s)) ! k) = busy_text"
    using k by (simp add: rej)
  have c_rej: "isLoading (state_after (menuItemClick i r s))"
    "timers (state_after (menuItemClick i r s)) = timers s"
    using assms(2) by (simp_all add: rej usm_frame)
  note ok = timerCallback_status [OF assms(1), of n r1 t]
  note ko = timerCallback_status [OF assms(1), of n r2 t]
  have idle: "\<not> isLoading (state_after (timerCallback n r2 t s))"
    by (rule timerCallback_ctl)
  note diff = completed_states_differ_in_status [OF assms(1,3,4), of n t]
  show ?thesis
    unfolding Let_def
    using t_rej c_rej ok(1,2) ko(1,2) idle diff assms(3,4) texts_distinct(2,3) [of n t]
    by simp
qed

theorem rejection_distinct_from_failure_witness:
  "isLoading loading0 \<and> (1/2::real) > 0.1 \<and> \<not> (1/20::real) > 0.1 \<and>
   textContent (document (state_after (menuItemClick 1 (1/2) loading0)) ! 0) = busy_text \<and>
   textContent (document (state_after
      (timerCallback (Some ''Pizza'') (1/20) ''10:00:00'' loading0)) ! 0)
     = failure_text (Some ''Pizza'') ''10:00:00'' \<and>
   busy_text \<noteq> failure_text (Some ''Pizza'') ''10:00:00'' \<and>
   classList (document (state_after
      (timerCallback (Some ''Pizza'') (1/2) ''10:00:00'' loading0)) ! 0)
     = [''status-message'', ''success''] \<and>
   classList (document (state_after
      (timerCallback (Some ''Pizza'') (1/20) ''10:00:00'' loading0)) ! 0)
     = [''status-message'', ''error'']"
proof -
  have k: "getElementById ''statusMessage'' (document loading0) = Some 0"
    by (simp add: loading0_def getElementById_def node_def)
  have busy: "isLoading loading0"
    by (simp add: loading0_def)
  have r: "(1/2::real) > 0.1" "\<not> (1/20::real) > 0.1"
    by simp_all
  have base: "filter (\<lambda>c. c \<notin> set status_classes) (classList (document loading0 ! 0)) = [''status-message'']"
    by (simp add: loading0_def node_def status_classes_def)
  note at_loading = rejection_distinct_from_failure [OF k busy r, of 1 "1/2" "Some ''Pizza''" "''10:00:00''",
      unfolded Let_def base]
  have "textContent (document (state_after (menuItemClick 1 (1/2) loading0)) ! 0) = busy_text"
    using at_loading by (rule conjunct1)
  moreover have "textContent (document (state_after
      (timerCallback (Some ''Pizza'') (1/20) ''10:00:00'' loading0)) ! 0)
     = failure_text (Some ''Pizza'') ''10:00:00''"
    using at_loading by blast
  moreover have "busy_text \<noteq> failure_text (Some ''Pizza'') ''10:00:00''"
    using at_loading by blast
  moreover have "classList (document (state_after
      (timerCallback (Some ''Pizza'') (1/2) ''10:00:00'' loading0)) ! 0)
     = [''status-message''] @ [''success'']"
    using at_loading by blast
  moreover have "classList (document (state_after
      (timerCallback (Some ''Pizza'') (1/20) ''10:00:00'' loading0)) ! 0)
     = [''status-message''] @ [''error'']"
    using at_loading by blast
  ultimately show ?thesis
    using busy r by simp
qed

section \<open>Tabs during an operation\<close>

text \<open>
  C8. Tab clicks while busy. In a busy state the click listener of a tab button does
  nothing but call \<^verbatim>\<open>updateStatusMessage\<close> with the advisory, and returns:
  \<^verbatim>\<open>currentTab\<close> is unchanged and every element has the class \<^verbatim>\<open>active\<close> exactly if it had
  it before, so \<^verbatim>\<open>switchToTab\<close> has not run. No event changes \<^verbatim>\<open>currentTab\<close> in a busy
  state.
\<close>

theorem tab_click_while_busy:
  "(isLoading s \<longrightarrow>
      (let s' = state_after (tabButtonClick qs i s)
       in tabButtonClick qs i s
            = updateStatusMessage ''Please wait for current operation to complete'' ''error'' s \<and>
          returns (tabButtonClick qs i s) \<and>
          currentTab s' = currentTab s \<and>
          length (document s') = length (document s) \<and>
          (\<forall>j < length (document s).
             (''active'' \<in> set (classList (document s' ! j)))
               = (''active'' \<in> set (classList (document s ! j)))))) \<and>
   (currentTab (step qs e s) \<noteq> currentTab s \<longrightarrow> \<not> isLoading s)"
proof (intro conjI impI)
  assume busy: "isLoading s"
  define m where "m = ''Please wait for current operation to complete''"
  have eq: "tabButtonClick qs i s = updateStatusMessage m ''error'' s"
    using busy by (simp add: tabButtonClick_def m_def)
  have active: "(''active'' \<in> set (classList (document (state_after (updateStatusMessage m ''error'' s)) ! j)))
      = (''active'' \<in> set (classList (document s ! j)))" if "j < length (document s)" for j
  proof (cases "getElementById ''statusMessage'' (document s)")
    case None
    then show ?thesis
      by (simp add: usm_None)
  next
    case (Some k)
    have "updateStatusMessage m ''error'' s
        = Return (s\<lparr>document := (document s)[k := shown m ''error'' (document s ! k)]\<rparr>)"
      using Some by (rule usm_Some) (rule loading_token)
    then show ?thesis
      using that by (cases "j = k") (simp_all add: shown_literal status_classes_def)
  qed
  show "let s' = state_after (tabButtonClick qs i s)
       in tabButtonClick qs i s
            = updateStatusMessage ''Please wait for current operation to complete'' ''error'' s \<and>
          returns (tabButtonClick qs i s) \<and>
          currentTab s' = currentTab s \<and>
          length (document s') = length (document s) \<and>
          (\<forall>j < length (document s).
             (''active'' \<in> set (classList (document s' ! j)))
               = (''active'' \<in> set (classList (document s ! j))))"
    unfolding Let_def m_def [symmetric] eq
    using active by (simp add: usm_frame)
next
  assume changed: "currentTab (step qs e s) \<noteq> currentTab s"
  show "\<not> isLoading s"
  proof
    assume busy: "isLoading s"
    have "currentTab (step qs e s) = currentTab s"
    proof (cases e)
      case (MenuItemClick i r)
      then show ?thesis
        using busy by (simp add: menuItemClick_busy usm_frame)
    next
      case (TabButtonClick i)
      then show ?thesis
        using busy by (simp add: tabButtonClick_def usm_frame)
    next
      case (TimerFire k r t)
      then show ?thesis
        by (simp add: fire_def timerCallback_ctl)
    qed
    with changed show False
      by simp
  qed
qed

theorem tab_click_while_busy_witness:
  "isLoading (run engine0 [MenuItemClick 5 (1/2)] (initial page0)) \<and>
   currentTab (state_after (tabButtonClick engine0 2
       (run engine0 [MenuItemClick 5 (1/2)] (initial page0)))) = Some ''tab1'' \<and>
   (''active'' \<in> set (classList (document (state_after (tabButtonClick engine0 2
       (run engine0 [MenuItemClick 5 (1/2)] (initial page0)))) ! 1))) \<and>
   currentTab (step engine0 (TabButtonClick 2) (initial page0)) \<noteq> currentTab (initial page0) \<and>
   \<not> isLoading (initial page0)"
proof -
  define busy where "busy = run engine0 [MenuItemClick 5 (1/2)] (initial page0)"
  have busy: "isLoading busy" "currentTab busy = Some ''tab1''" "1 < length (document busy)"
    "''active'' \<in> set (classList (document busy ! 1))"
    by (simp_all add: busy_def script_defs)
  have switched: "currentTab (step engine0 (TabButtonClick 2) (initial page0)) \<noteq> currentTab (initial page0)"
    by (simp add: script_defs)
  note at_busy = tab_click_while_busy [of busy engine0 2, THEN conjunct1, rule_format, OF busy(1),
      unfolded Let_def]
  note at_idle = tab_click_while_busy [of "initial page0" engine0 _ "TabButtonClick 2",
      THEN conjunct2, rule_format, OF switched]
  have "currentTab (state_after (tabButtonClick engine0 2 busy)) = currentTab busy"
    using at_busy by blast
  moreover have "(''active'' \<in> set (classList (document (state_after (tabButtonClick engine0 2 busy)) ! 1)))
      = (''active'' \<in> set (classList (document busy ! 1)))"
    using at_busy busy(3) by blast
  ultimately show ?thesis
    using busy switched at_idle unfolding busy_def by simp
qed

section \<open>Item names\<close>

text \<open>
  C9. No validation of the item name. Whatever the \<^verbatim>\<open>data-item\<close> attribute of the
  clicked element is, the empty string and a missing attribute included, a click in an
  idle state the script reaches passes it to \<^verbatim>\<open>simulateRestApiCall\<close> unchecked: the
  controller becomes busy with one timer carrying that name, the status element shows the
  loading message for it, and when the timer fires the controller is idle again and the
  status element shows the success or the failure message for that name (the text
  \<^verbatim>\<open>null\<close> for a missing attribute).
\<close>

theorem unvalidated_name_full_cycle:
  assumes "s = run qs es (initial d)" and "\<not> isLoading s" and "i < length (document s)"
    and "getElementById ''statusMessage'' (document s) = Some k"
  shows "let itemName = dataItem (document s ! i);
             s1 = step qs (MenuItemClick i r1) s;
             s2 = step qs (TimerFire 0 r2 t) s1
         in menuItemClick i r1 s = simulateRestApiCall itemName r1 s \<and>
            isLoading s1 \<and>
            timers s1 = [\<lparr>timerItem = itemName, timerDelay = r1 * 2000 + 1000\<rparr>] \<and>
            textContent (document s1 ! k) = loading_text itemName \<and>
            \<not> isLoading s2 \<and> timers s2 = [] \<and>
            textContent (document s2 ! k)
              = (if r2 > 0.1 then success_text itemName t else failure_text itemName t)"
proof -
  define itemName where "itemName = dataItem (document s ! i)"
  define s1 where "s1 = step qs (MenuItemClick i r1) s"
  define s2 where "s2 = step qs (TimerFire 0 r2 t) s1"
  have none: "timers s = []"
    using reachable_single_flight [of qs es d] assms(1,2) by (simp add: single_flight_def)
  have click: "menuItemClick i r1 s = simulateRestApiCall itemName r1 s"
    unfolding itemName_def using assms(2) by (rule menuItemClick_idle)
  have s1_eq: "s1 = state_after (simulateRestApiCall itemName r1 s)"
    using assms(3) by (simp add: s1_def click)
  have busy: "isLoading s1"
    and pending: "timers s1 = [\<lparr>timerItem = itemName, timerDelay = r1 * 2000 + 1000\<rparr>]"
    by (simp_all add: s1_eq simulateRestApiCall_ctl none)
  have loading: "textContent (document s1 ! k) = loading_text itemName"
    and k1: "getElementById ''statusMessage'' (document s1) = Some k"
    unfolding s1_eq using assms(4) by (rule simulateRestApiCall_status)+
  have s2_eq: "s2 = state_after (timerCallback itemName r2 t (s1\<lparr>timers := []\<rparr>))"
    unfolding s2_def using fire_single [OF pending] by simp
  have k1': "getElementById ''statusMessage'' (document (s1\<lparr>timers := []\<rparr>)) = Some k"
    using k1 by simp
  have idle: "\<not> isLoading s2" and empty: "timers s2 = []"
    by (simp_all add: s2_eq timerCallback_ctl)
  have outcome: "textContent (document s2 ! k)
      = (if r2 > 0.1 then success_text itemName t else failure_text itemName t)"
    unfolding s2_eq using k1' by (rule timerCallback_status)
  show ?thesis
    unfolding Let_def itemName_def [symmetric] s1_def [symmetric] s2_def [symmetric]
    using click busy pending loading idle empty outcome by simp
qed

theorem unvalidated_name_full_cycle_witness:
  "\<not> isLoading (run engine0 [] (initial page1)) \<and>
   dataItem (document (run engine0 [] (initial page1)) ! 1) = Some [] \<and>
   dataItem (document (run engine0 [] (initial page1)) ! 2) = None \<and>
   textContent (document (step engine0 (TimerFire 0 (1/2) ''10:00:00'')
       (step engine0 (MenuItemClick 1 (1/4)) (run engine0 [] (initial page1)))) ! 0)
     = [CHR 0xE2, CHR 0x9C, CHR 0x93] @ '' API call successful for \"\" at 10:00:00'' \<and>
   textContent (document (step engine0 (TimerFire 0 (1/20) ''10:00:00'')
       (step engine0 (MenuItemClick 2 (1/4)) (run engine0 [] (initial page1)))) ! 0)
     = [CHR 0xE2, CHR 0x9C, CHR 0x97] @ '' API call failed for \"null\" at 10:00:00''"
proof -
  define idle where "idle = run engine0 [] (initial page1)"
  have idle: "\<not> isLoading idle" "1 < length (document idle)" "2 < length (document idle)"
    "getElementById ''statusMessage'' (document idle) = Some 0"
    by (simp_all add: idle_def page1_def script_defs)
  have items: "dataItem (document idle ! 1) = Some []" "dataItem (document idle ! 2) = None"
    by (simp_all add: idle_def page1_def script_defs)
  note empty_name = unvalidated_name_full_cycle [OF idle_def idle(1,2,4), of "1/4" "1/2" "''10:00:00''",
      unfolded Let_def items]
  note null_name = unvalidated_name_full_cycle [OF idle_def idle(1,3,4), of "1/4" "1/20" "''10:00:00''",
      unfolded Let_def items]
  have "textContent (document (step engine0 (TimerFire 0 (1/2) ''10:00:00'')
       (step engine0 (MenuItemClick 1 (1/4)) idle)) ! 0)
     = (if (1/2::real) > 0.1 then success_text (Some []) ''10:00:00''
        else failure_text (Some []) ''10:00:00'')"
    using empty_name by blast
  moreover have "textContent (document (step engine0 (TimerFire 0 (1/20) ''10:00:00'')
       (step engine0 (MenuItemClick 2 (1/4)) idle)) ! 0)
     = (if (1/20::real) > 0.1 then success_text None ''10:00:00''
        else failure_text None ''10:00:00'')"
    using null_name by blast
  ultimately show ?thesis
    using idle(1) items unfolding idle_def
    by (simp add: success_text_def failure_text_def del: step.simps)
qed

section \<open>The status bar\<close>

text \<open>
  C10. Status display invariant. A call of \<^verbatim>\<open>updateStatusMessage\<close> on a page without the
  status element returns with the state unchanged. On a page with the status element at
  position \<open>k\<close>, whether the call returns or \<^verbatim>\<open>classList.add\<close> throws, the element
  stays where it is, its class list is its old one without \<^verbatim>\<open>loading\<close>, \<^verbatim>\<open>success\<close> and
  \<^verbatim>\<open>error\<close>, followed by at most the one class \<open>type\<close>, and so it carries at most one of
  the three styling classes.
\<close>

theorem updateStatusMessage_status_classes:
  "(getElementById ''statusMessage'' (document s) = None \<longrightarrow>
      updateStatusMessage message type s = Return s) \<and>
   (\<forall>k. getElementById ''statusMessage'' (document s) = Some k \<longrightarrow>
      (let s' = state_after (updateStatusMessage message type s);
           base = filter (\<lambda>c. c \<notin> set status_classes) (classList (document s ! k));
           new = classList (document s' ! k)
       in getElementById ''statusMessage'' (document s') = Some k \<and>
          (new = base \<or> new = base @ [type]) \<and>
          length (filter (\<lambda>c. c \<in> set status_classes) new) \<le> 1))"
proof (intro conjI allI impI)
  assume "getElementById ''statusMessage'' (document s) = None"
  then show "updateStatusMessage message type s = Return s"
    by (rule usm_None)
next
  fix k
  assume k: "getElementById ''statusMessage'' (document s) = Some k"
  then have bound: "k < length (document s)"
    by (rule getElementById_bound)
  define s' where "s' = state_after (updateStatusMessage message type s)"
  define base where "base = filter (\<lambda>c. c \<notin> set status_classes) (classList (document s ! k))"
  have none: "filter (\<lambda>c. c \<in> set status_classes) base = []"
    by (simp add: base_def)
  have ids: "getElementById ''statusMessage'' (document s') = Some k"
    unfolding s'_def using k getElementById_ids [OF usm_ids] by simp
  have new: "classList (document s' ! k) = base \<or> classList (document s' ! k) = base @ [type]"
  proof (cases "list_ex ascii_whitespace type")
    case True
    then show ?thesis
      using usm_Throws [OF k True, of message] bound
      by (simp add: s'_def base_def shown_def status_classes_def)
  next
    case False
    then show ?thesis
      using usm_Some [OF k False, of message] bound
      by (simp add: s'_def base_def shown_def status_classes_def Let_def)
  qed
  have "length (filter (\<lambda>c. c \<in> set status_classes) (classList (document s' ! k))) \<le> 1"
    using new none by auto
  with ids new
  show "let s' = state_after (updateStatusMessage message type s);
            base = filter (\<lambda>c. c \<notin> set status_classes) (classList (document s ! k));
            new = classList (document s' ! k)
        in getElementById ''statusMessage'' (document s') = Some k \<and>
           (new = base \<or> new = base @ [type]) \<and>
           length (filter (\<lambda>c. c \<in> set status_classes) new) \<le> 1"
    by (simp add: s'_def base_def Let_def)
qed

theorem updateStatusMessage_status_classes_witness:
  "classList (document (state_after (updateStatusMessage ''done'' ''success'' loading0)) ! 0)
     = [''status-message'', ''success''] \<and>
   length (filter (\<lambda>c. c \<in> set status_classes)
     (classList (document (state_after (updateStatusMessage ''done'' ''success'' loading0)) ! 0))) \<le> 1 \<and>
   updateStatusMessage ''done'' ''success'' bare0 = Return bare0"
proof -
  have k: "getElementById ''statusMessage'' (document loading0) = Some 0"
    by (simp add: loading0_def getElementById_def node_def)
  have n: "getElementById ''statusMessage'' (document bare0) = None"
    by (simp add: bare0_def getElementById_def node_def)
  have old: "filter (\<lambda>c. c \<notin> set status_classes) (classList (document loading0 ! 0)) = [''status-message'']"
    by (simp add: loading0_def node_def status_classes_def)
  have dup: "[''status-message'', ''success''] \<noteq> [''status-message'']"
    by simp
  from updateStatusMessage_status_classes [of loading0 "''done''" "''success''"] k old
  have "classList (document (state_after (updateStatusMessage ''done'' ''success'' loading0)) ! 0)
     = [''status-message''] \<or> classList (document (state_after (updateStatusMessage ''done'' ''success'' loading0)) ! 0)
     = [''status-message'', ''success'']"
   and "length (filter (\<lambda>c. c \<in> set status_classes)
     (classList (document (state_after (updateStatusMessage ''done'' ''success'' loading0)) ! 0))) \<le> 1"
    by (simp_all add: Let_def)
  moreover have "updateStatusMessage ''done'' ''success'' bare0 = Return bare0"
    using updateStatusMessage_status_classes [of bare0 "''done''" "''success''"] n by simp
  moreover have "classList (document (state_after (updateStatusMessage ''done'' ''success'' loading0)) ! 0)
     = [''status-message'', ''success'']"
    by (simp add: updateStatusMessage_def getElementById_def loading0_def node_def modify_def
        classList_remove_def classList_add_def ascii_whitespace_def Let_def)
  ultimately show ?thesis by simp
qed

end
